theory Spec2Isabelle
  imports Complex_Main "HOL-Library.Word" "HOL-Library.AList"
begin

section \<open>The LLaMA client of azor-chatdog-js (src/llm/llamaClient.ts)\<close>

text \<open>
  A shallow embedding of \<^verbatim>\<open>llamaClient.ts\<close>: the history translator, the prompt
  options, the token heuristic, the hydration of a native session, the process-wide model
  cache and the chat-session wrapper. Synchronous code is a HOL function; a promise is a
  cell of a store that the events of the JavaScript job queue settle.
\<close>

subsection \<open>JavaScript values\<close>

text \<open>
  A JavaScript string is a sequence of UTF-16 code units, and \<^verbatim>\<open>s.length\<close> counts
  code units. \<open>js\<close> writes an ASCII literal.
\<close>

type_synonym jsstring = "16 word list"

definition js :: "string \<Rightarrow> jsstring" where
  "js s = map of_char s"

text \<open>
  A JavaScript number, as far as this file looks at one: \<^verbatim>\<open>Number.isFinite\<close> tells the
  finite values from \<^verbatim>\<open>NaN\<close> and the infinities, and the value is passed on unchanged.
\<close>

datatype number = Finite real | NaN | PosInfinity | NegInfinity

fun Number_isFinite :: "number \<Rightarrow> bool" where
  "Number_isFinite (Finite x) = True"
| "Number_isFinite NaN = False"
| "Number_isFinite PosInfinity = False"
| "Number_isFinite NegInfinity = False"

text \<open>\<^verbatim>\<open>function isFiniteNumber(value: number | undefined)\<close>; \<open>None\<close> is \<^verbatim>\<open>undefined\<close>.\<close>

definition isFiniteNumber :: "number option \<Rightarrow> bool" where
  "isFiniteNumber v = (case v of None \<Rightarrow> False | Some n \<Rightarrow> Number_isFinite n)"

text \<open>
  \<^verbatim>\<open>Array.prototype.join\<close> on an array of strings, and \<^verbatim>\<open>String.prototype.trim\<close>, which
  removes the WhiteSpace and LineTerminator code units of ECMAScript from both ends.
\<close>

fun join :: "jsstring \<Rightarrow> jsstring list \<Rightarrow> jsstring" where
  "join sep [] = []"
| "join sep [x] = x"
| "join sep (x # y # ys) = x @ sep @ join sep (y # ys)"

definition isWhiteSpace :: "16 word \<Rightarrow> bool" where
  "isWhiteSpace c = (c \<in> set [0x09, 0x0A, 0x0B, 0x0C, 0x0D, 0x20, 0xA0, 0x1680,
     0x2000, 0x2001, 0x2002, 0x2003, 0x2004, 0x2005, 0x2006, 0x2007, 0x2008, 0x2009, 0x200A,
     0x2028, 0x2029, 0x202F, 0x205F, 0x3000, 0xFEFF])"

definition trim :: "jsstring \<Rightarrow> jsstring" where
  "trim s = rev (dropWhile isWhiteSpace (rev (dropWhile isWhiteSpace s)))"

text \<open>
  An object literal that receives properties by assignment: the properties in insertion
  order. \<^verbatim>\<open>o.k = v\<close> is \<open>AList.update k v o\<close> (a new key goes last), and
  \<^verbatim>\<open>Object.keys(o)\<close> is \<open>map fst o\<close>.
\<close>

datatype js_value = NumberV number | StringV jsstring

type_synonym js_object = "(string \<times> js_value) list"

definition Object_keys :: "js_object \<Rightarrow> string list" where
  "Object_keys obj = map fst obj"

subsection \<open>The data model\<close>

text \<open>
  Modelled from the spec: the types \<^verbatim>\<open>Message\<close> and \<^verbatim>\<open>LLMResponse\<close> are declared in
  \<^verbatim>\<open>../types/index.js\<close>, which is not among the sources. The spec gives a message a role
  (\<^verbatim>\<open>user\<close> or \<^verbatim>\<open>model\<close>) and an ordered sequence of text parts; the code reads
  \<^verbatim>\<open>message.role\<close>, \<^verbatim>\<open>message.parts\<close> and \<^verbatim>\<open>part.text\<close>, and builds \<^verbatim>\<open>{ text }\<close>.
\<close>

datatype Role = User | Model

record Part =
  part_text :: jsstring

record Message =
  role :: Role
  parts :: "Part list"

record LLMResponse =
  response_text :: jsstring

text \<open>
  \<^verbatim>\<open>ChatHistoryItem\<close> of node-llama-cpp, as this file builds and keeps it: a system or user
  item carries a text, a model item a sequence of response segments.
\<close>

datatype ChatHistoryItem =
    ChatSystemMessage jsstring
  | ChatUserMessage jsstring
  | ChatModelResponse "jsstring list"

record LlamaGenerationConfig =
  temperature :: "number option"
  topP :: "number option"
  topK :: "number option"
  minP :: "number option"
  maxTokens :: "number option"
  seed :: "number option"
  responsePrefix :: "jsstring option"

definition DEFAULT_GENERATION_CONFIG :: LlamaGenerationConfig where
  "DEFAULT_GENERATION_CONFIG =
     \<lparr>temperature = None, topP = None, topK = None, minP = None, maxTokens = None,
      seed = None, responsePrefix = None\<rparr>"

text \<open>
  The private fields of a native session that hydration writes
  (\<^verbatim>\<open>LlamaChatSessionInternal\<close>); each is optional, \<open>None\<close> is \<^verbatim>\<open>undefined\<close>. A value of
  type \<^verbatim>\<open>unknown\<close> is an opaque token.
\<close>

datatype unknown = Opaque nat

record LlamaChatSessionInternal =
  chatHistory :: "ChatHistoryItem list option"
  chatHistoryStateRef :: "(string \<times> unknown) list option"
  lastEvaluation :: "unknown option"
  canUseContextWindowForCompletion :: "bool option"

record LlamaClient =
  modelName :: jsstring
  modelPath :: jsstring
  gpuLayers :: int
  contextSize :: int
  generationConfig :: LlamaGenerationConfig

subsection \<open>The history translator\<close>

text \<open>The body of the loop of \<^verbatim>\<open>convertToChatHistory\<close>: one message, pushed onto \<open>items\<close>.\<close>

definition convert_message :: "Message \<Rightarrow> ChatHistoryItem list \<Rightarrow> ChatHistoryItem list" where
  "convert_message message items =
     (let textParts = map part_text (parts message) in
      if role message = User
      then items @ [ChatUserMessage (join [] textParts)]
      else items @ [ChatModelResponse (if length textParts > 0 then textParts else [[]])])"

definition convertToChatHistory :: "Message list \<Rightarrow> ChatHistoryItem list" where
  "convertToChatHistory history = fold convert_message history []"

text \<open>
  \<^verbatim>\<open>hydrateNativeHistory\<close>: the session is updated in place in the source, and returned
  here.
\<close>

definition hydrateNativeHistory ::
  "LlamaChatSessionInternal \<Rightarrow> Message list \<Rightarrow> LlamaChatSessionInternal" where
  "hydrateNativeHistory session history =
     (let chatHistoryItems = convertToChatHistory history in
      if length chatHistoryItems = 0 then session
      else
        let existingHistory = (case chatHistory session of Some a \<Rightarrow> a | None \<Rightarrow> []) in
        session\<lparr>chatHistory := Some (existingHistory @ chatHistoryItems),
                chatHistoryStateRef := Some [],
                lastEvaluation := None,
                canUseContextWindowForCompletion := Some False\<rparr>)"

subsection \<open>The token heuristic\<close>

text \<open>
  \<^verbatim>\<open>Math.ceil(part.text.length / 4)\<close>: the quotient of a length by four is exact in
  floating point, so the real quotient is what the code computes.
\<close>

definition part_tokens :: "Part \<Rightarrow> nat" where
  "part_tokens part = nat \<lceil>real (length (part_text part)) / 4\<rceil>"

definition countHistoryTokens :: "Message list \<Rightarrow> nat" where
  "countHistoryTokens history =
     fold (\<lambda>msg totalTokens.
             fold (\<lambda>part totalTokens. totalTokens + part_tokens part) (parts msg) totalTokens)
          history 0"

text \<open>
  The spec's words for the estimate: the ceiling of a quarter of the character length,
  summed over every text part of every message.
\<close>

definition estimate_spec :: "Message list \<Rightarrow> nat" where
  "estimate_spec history =
     (\<Sum>msg\<leftarrow>history. \<Sum>part\<leftarrow>parts msg. nat \<lceil>real (length (part_text part)) / 4\<rceil>)"

text \<open>The lengths of all text parts of a history, in order, and their total.\<close>

definition part_lengths :: "Message list \<Rightarrow> nat list" where
  "part_lengths history = concat (map (\<lambda>msg. map (\<lambda>part. length (part_text part)) (parts msg)) history)"

definition total_text_length :: "Message list \<Rightarrow> nat" where
  "total_text_length history = sum_list (part_lengths history)"

subsection \<open>The prompt options\<close>

text \<open>
  \<^verbatim>\<open>if (isFiniteNumber(v)) options.k = v\<close> and \<^verbatim>\<open>if (s) options.k = s\<close>; a string is
  truthy when it is defined and not empty.
\<close>

definition set_if_finite :: "string \<Rightarrow> number option \<Rightarrow> js_object \<Rightarrow> js_object" where
  "set_if_finite k v options =
     (case v of
        None \<Rightarrow> options
      | Some n \<Rightarrow> if isFiniteNumber v then AList.update k (NumberV n) options else options)"

definition set_if_truthy :: "string \<Rightarrow> jsstring option \<Rightarrow> js_object \<Rightarrow> js_object" where
  "set_if_truthy k v options =
     (case v of
        None \<Rightarrow> options
      | Some s \<Rightarrow> if s \<noteq> [] then AList.update k (StringV s) options else options)"

definition getPromptOptions :: "LlamaGenerationConfig \<Rightarrow> js_object option" where
  "getPromptOptions g =
     (let options = [];
          options = set_if_finite ''temperature'' (temperature g) options;
          options = set_if_finite ''topP'' (topP g) options;
          options = set_if_finite ''topK'' (topK g) options;
          options = set_if_finite ''minP'' (minP g) options;
          options = set_if_finite ''maxTokens'' (maxTokens g) options;
          options = set_if_finite ''seed'' (seed g) options;
          options = set_if_truthy ''responsePrefix'' (responsePrefix g) options
      in if length (Object_keys options) > 0 then Some options else None)"

text \<open>
  \<^verbatim>\<open>process.env.LLAMA_RESPONSE_PREFIX?.trim() || undefined\<close> of \<^verbatim>\<open>fromEnvironment\<close>: the
  only place that trims the prefix.
\<close>

definition env_responsePrefix :: "jsstring option \<Rightarrow> jsstring option" where
  "env_responsePrefix v =
     (case v of None \<Rightarrow> None | Some s \<Rightarrow> if trim s \<noteq> [] then Some (trim s) else None)"

text \<open>
  The fields the options record holds, in the order of the code: a numeric field that is
  set and finite, and the prefix when \<open>keep\<close> accepts it.
\<close>

definition finite_field :: "string \<Rightarrow> number option \<Rightarrow> js_object" where
  "finite_field k v = (case v of Some (Finite x) \<Rightarrow> [(k, NumberV (Finite x))] | _ \<Rightarrow> [])"

definition prefix_field :: "(jsstring \<Rightarrow> bool) \<Rightarrow> jsstring option \<Rightarrow> js_object" where
  "prefix_field keep v = (case v of Some s \<Rightarrow> if keep s then [(''responsePrefix'', StringV s)] else [] | None \<Rightarrow> [])"

definition applicable_fields :: "(jsstring \<Rightarrow> bool) \<Rightarrow> LlamaGenerationConfig \<Rightarrow> js_object" where
  "applicable_fields keep g =
     finite_field ''temperature'' (temperature g) @ finite_field ''topP'' (topP g) @
     finite_field ''topK'' (topK g) @ finite_field ''minP'' (minP g) @
     finite_field ''maxTokens'' (maxTokens g) @ finite_field ''seed'' (seed g) @
     prefix_field keep (responsePrefix g)"

definition options_spec :: "(jsstring \<Rightarrow> bool) \<Rightarrow> LlamaGenerationConfig \<Rightarrow> js_object option" where
  "options_spec keep g = (if applicable_fields keep g = [] then None else Some (applicable_fields keep g))"

definition nonempty :: "jsstring \<Rightarrow> bool" where
  "nonempty s = (s \<noteq> [])"

definition nonempty_trimmed :: "jsstring \<Rightarrow> bool" where
  "nonempty_trimmed s = (s \<noteq> [] \<and> trim s = s)"

text \<open>
  One native item per message, as the loop builds it, and the item the spec's sentence
  describes (a model item holding the part texts whatever their number).
\<close>

definition native_item :: "Message \<Rightarrow> ChatHistoryItem" where
  "native_item m =
     (if role m = User then ChatUserMessage (concat (map part_text (parts m)))
      else ChatModelResponse (if parts m = [] then [[]] else map part_text (parts m)))"

definition claimed_item :: "Message \<Rightarrow> ChatHistoryItem" where
  "claimed_item m =
     (if role m = User then ChatUserMessage (concat (map part_text (parts m)))
      else ChatModelResponse (map part_text (parts m)))"

text \<open>At most one text part of the history has a length that is not a multiple of four.\<close>

definition aligned_but_one :: "Message list \<Rightarrow> bool" where
  "aligned_but_one h = (length (filter (\<lambda>n. \<not> 4 dvd n) (part_lengths h)) \<le> 1)"

subsection \<open>Promises and the model cache\<close>

text \<open>
  A thrown value, the state of a promise, and the handle of a loaded model.
\<close>

datatype error = Error jsstring

datatype 'a promise = Pending | Fulfilled 'a | Rejected error

datatype LlamaModel = LlamaModel nat

text \<open>
  The template literal \<^verbatim>\<open>`${this.modelPath}|${this.gpuLayers}`\<close>. The layer count is an
  integer of the validated configuration; \<open>Number_toString\<close> writes it in decimal, as
  JavaScript writes an integer of fewer than 22 digits.
\<close>

fun digits :: "nat \<Rightarrow> jsstring" where
  "digits n = (if n < 10 then [of_nat (48 + n)] else digits (n div 10) @ [of_nat (48 + n mod 10)])"

declare digits.simps [simp del]

definition Number_toString :: "int \<Rightarrow> jsstring" where
  "Number_toString i = (if i < 0 then js ''-'' @ digits (nat (- i)) else digits (nat i))"

definition cacheKey :: "LlamaClient \<Rightarrow> jsstring" where
  "cacheKey c = modelPath c @ js ''|'' @ Number_toString (gpuLayers c)"

text \<open>
  The fingerprint of the spec, model path and accelerator-layer count, and the number a
  string of decimal digits denotes.
\<close>

definition fingerprint :: "LlamaClient \<Rightarrow> jsstring \<times> int" where
  "fingerprint c = (modelPath c, gpuLayers c)"

definition digits_value :: "jsstring \<Rightarrow> nat" where
  "digits_value ds = fold (\<lambda>w a. 10 * a + (unat w - 48)) ds 0"

text \<open>
  The promise \<^verbatim>\<open>modelPromise\<close> is the result of an async arrow function, and its state is
  where that function stands:
  \<^item> \<open>AwaitGetLlama c\<close>: suspended at \<^verbatim>\<open>await getLlama()\<close>, inside the \<^verbatim>\<open>try\<close> block;
  \<^item> \<open>AwaitLoadModel\<close>: the function has executed \<^verbatim>\<open>return llama.loadModel(...)\<close>. A
    \<^verbatim>\<open>return\<close> without \<^verbatim>\<open>await\<close> leaves the \<^verbatim>\<open>try\<close> block and resolves
    \<^verbatim>\<open>modelPromise\<close> with the returned promise, which it then follows; a later rejection of
    that promise is not thrown inside the \<^verbatim>\<open>try\<close> block, so the \<^verbatim>\<open>catch\<close> clause does
    not run for it;
  \<^item> \<open>ModelSettled r\<close>: rejected (\<open>Inl\<close>) or fulfilled (\<open>Inr\<close>).

  \<^verbatim>\<open>getLlama\<close> and \<^verbatim>\<open>llama.loadModel\<close> are async functions of node-llama-cpp: each returns
  a promise, which the runtime settles later.
\<close>

datatype model_task =
    AwaitGetLlama LlamaClient
  | AwaitLoadModel
  | ModelSettled "error + LlamaModel"

text \<open>
  The promise of one call of \<^verbatim>\<open>createNativeSession\<close>: suspended at
  \<^verbatim>\<open>await this.loadModel()\<close> (with the promise \<^verbatim>\<open>loadModel\<close> handed out), suspended at
  \<^verbatim>\<open>await model.createContext(...)\<close>, or settled.
\<close>

datatype session_task =
    AwaitModel "nat option" LlamaClient jsstring "Message list option"
  | AwaitContext LlamaClient jsstring "Message list option"
  | SessionSettled "error + LlamaChatSessionInternal"

text \<open>
  The state of the process: the static \<^verbatim>\<open>LlamaClient.modelCache\<close> (a promise is the index
  of its cell), the cells of the model promises and of the session promises, and the calls
  made to the runtime so far.
\<close>

record world =
  modelCache :: "jsstring \<rightharpoonup> nat"
  modelPromises :: "model_task list"
  getLlamaCalls :: nat
  loadModelCalls :: "(jsstring \<times> int) list"
  sessionPromises :: "session_task list"
  createContextCalls :: "(LlamaModel \<times> int) list"

definition process_start :: world where
  "process_start =
     \<lparr>modelCache = Map.empty, modelPromises = [], getLlamaCalls = 0, loadModelCalls = [],
      sessionPromises = [], createContextCalls = []\<rparr>"

text \<open>
  \<^verbatim>\<open>loadModel\<close>, which runs to its \<^verbatim>\<open>return\<close> without suspending. On a miss the arrow
  function starts and runs up to \<^verbatim>\<open>await getLlama()\<close>, which calls \<^verbatim>\<open>getLlama\<close>; then
  the cache is set. The result is \<^verbatim>\<open>modelCache.get(cacheKey)\<close>; the promise an async
  method wraps around it settles as that promise does, and is identified with it.
\<close>

definition loadModel :: "LlamaClient \<Rightarrow> world \<Rightarrow> nat option \<times> world" where
  "loadModel c s =
     (let key = cacheKey c;
          s = (if modelCache s key = None
               then
                 let modelPromise = length (modelPromises s) in
                 s\<lparr>modelPromises := modelPromises s @ [AwaitGetLlama c],
                   getLlamaCalls := Suc (getLlamaCalls s),
                   modelCache := (modelCache s)(key \<mapsto> modelPromise)\<rparr>
               else s)
      in (modelCache s key, s))"

text \<open>
  The promise of \<^verbatim>\<open>getLlama()\<close> awaited by model promise \<open>p\<close> settles. A rejection is
  thrown at the \<^verbatim>\<open>await\<close>, inside \<^verbatim>\<open>try\<close>: the \<^verbatim>\<open>catch\<close> clause deletes the cache
  entry and rethrows. Otherwise \<^verbatim>\<open>llama.loadModel\<close> is called and its promise returned.
\<close>

definition getLlama_settles :: "nat \<Rightarrow> error + unit \<Rightarrow> world \<Rightarrow> world" where
  "getLlama_settles p r s =
     (if p < length (modelPromises s) then
        (case modelPromises s ! p of
           AwaitGetLlama c \<Rightarrow>
             (case r of
                Inl e \<Rightarrow>
                  s\<lparr>modelCache := (modelCache s)(cacheKey c := None),
                    modelPromises := (modelPromises s)[p := ModelSettled (Inl e)]\<rparr>
              | Inr llama \<Rightarrow>
                  s\<lparr>loadModelCalls := loadModelCalls s @ [(modelPath c, gpuLayers c)],
                    modelPromises := (modelPromises s)[p := AwaitLoadModel]\<rparr>)
         | _ \<Rightarrow> s)
      else s)"

text \<open>
  The promise that \<^verbatim>\<open>llama.loadModel(...)\<close> returned to model promise \<open>p\<close> settles, and
  \<open>p\<close> with it. No code of \<^verbatim>\<open>loadModel\<close> runs at this point.
\<close>

definition llama_loadModel_settles :: "nat \<Rightarrow> error + LlamaModel \<Rightarrow> world \<Rightarrow> world" where
  "llama_loadModel_settles p r s =
     (if p < length (modelPromises s) \<and> modelPromises s ! p = AwaitLoadModel
      then s\<lparr>modelPromises := (modelPromises s)[p := ModelSettled r]\<rparr>
      else s)"

definition model_state :: "world \<Rightarrow> nat \<Rightarrow> LlamaModel promise" where
  "model_state s p =
     (if p < length (modelPromises s) then
        (case modelPromises s ! p of
           ModelSettled (Inl e) \<Rightarrow> Rejected e
         | ModelSettled (Inr model) \<Rightarrow> Fulfilled model
         | _ \<Rightarrow> Pending)
      else Pending)"

subsection \<open>Native sessions\<close>

text \<open>
  \<^verbatim>\<open>createNativeSession\<close> up to its first \<^verbatim>\<open>await\<close>: it calls \<^verbatim>\<open>loadModel\<close> and
  suspends. The result is the new session promise.
\<close>

definition createNativeSession ::
  "LlamaClient \<Rightarrow> jsstring \<Rightarrow> Message list option \<Rightarrow> world \<Rightarrow> nat \<times> world" where
  "createNativeSession c systemInstruction history s =
     (let (modelPromise, s) = loadModel c s;
          sessionPromise = length (sessionPromises s)
      in (sessionPromise,
          s\<lparr>sessionPromises :=
               sessionPromises s @ [AwaitModel modelPromise c systemInstruction history]\<rparr>))"

definition settle_session :: "nat \<Rightarrow> session_task \<Rightarrow> world \<Rightarrow> world" where
  "settle_session sid t s = s\<lparr>sessionPromises := (sessionPromises s)[sid := t]\<rparr>"

text \<open>
  \<^verbatim>\<open>createNativeSession\<close> resumes after \<^verbatim>\<open>await this.loadModel()\<close>, once the model promise
  has settled: a rejection rejects the session promise, a model is asked for a context.
  Awaiting \<^verbatim>\<open>undefined\<close> would give \<^verbatim>\<open>undefined\<close>, and the call of its
  \<^verbatim>\<open>createContext\<close> a TypeError.
\<close>

definition model_awaited :: "nat \<Rightarrow> world \<Rightarrow> world" where
  "model_awaited sid s =
     (if sid < length (sessionPromises s) then
        (case sessionPromises s ! sid of
           AwaitModel modelPromise c systemInstruction history \<Rightarrow>
             (case modelPromise of
                None \<Rightarrow> settle_session sid (SessionSettled (Inl (Error (js ''TypeError'')))) s
              | Some p \<Rightarrow>
                  if p < length (modelPromises s) then
                    (case modelPromises s ! p of
                       ModelSettled (Inl e) \<Rightarrow> settle_session sid (SessionSettled (Inl e)) s
                     | ModelSettled (Inr model) \<Rightarrow>
                         settle_session sid (AwaitContext c systemInstruction history)
                           (s\<lparr>createContextCalls := createContextCalls s @ [(model, contextSize c)]\<rparr>)
                     | _ \<Rightarrow> s)
                  else s)
         | _ \<Rightarrow> s)
      else s)"

text \<open>
  The rest of \<^verbatim>\<open>createNativeSession\<close>. \<open>Inl e\<close>: \<^verbatim>\<open>createContext\<close> rejected, or
  \<^verbatim>\<open>getSequence\<close> or the constructor of the native session threw. \<open>Inr session\<close>: the
  session that \<^verbatim>\<open>new LlamaChatSession(...)\<close> built, which is hydrated when
  \<^verbatim>\<open>history && history.length > 0\<close>.
\<close>

definition createContext_settles ::
  "nat \<Rightarrow> error + LlamaChatSessionInternal \<Rightarrow> world \<Rightarrow> world" where
  "createContext_settles sid r s =
     (if sid < length (sessionPromises s) then
        (case sessionPromises s ! sid of
           AwaitContext c systemInstruction history \<Rightarrow>
             (case r of
                Inl e \<Rightarrow> settle_session sid (SessionSettled (Inl e)) s
              | Inr session \<Rightarrow>
                  settle_session sid
                    (SessionSettled (Inr
                       (case history of
                          None \<Rightarrow> session
                        | Some h \<Rightarrow> if length h > 0 then hydrateNativeHistory session h else session)))
                    s)
         | _ \<Rightarrow> s)
      else s)"

definition session_state :: "world \<Rightarrow> nat \<Rightarrow> LlamaChatSessionInternal promise" where
  "session_state s sid =
     (if sid < length (sessionPromises s) then
        (case sessionPromises s ! sid of
           SessionSettled (Inl e) \<Rightarrow> Rejected e
         | SessionSettled (Inr session) \<Rightarrow> Fulfilled session
         | _ \<Rightarrow> Pending)
      else Pending)"

definition settled_session :: "world \<Rightarrow> nat \<Rightarrow> (error + LlamaChatSessionInternal) \<Rightarrow> bool" where
  "settled_session s sid r = (sid < length (sessionPromises s) \<and> sessionPromises s ! sid = SessionSettled r)"

subsection \<open>Runs of the process\<close>

text \<open>
  What can happen to the world: a call of \<^verbatim>\<open>loadModel\<close> or \<^verbatim>\<open>createNativeSession\<close> on
  some client, and the jobs that resume a suspended function.
\<close>

datatype event =
    Call_loadModel LlamaClient
  | Call_createNativeSession LlamaClient jsstring "Message list option"
  | GetLlama_settles nat "error + unit"
  | Llama_loadModel_settles nat "error + LlamaModel"
  | Model_awaited nat
  | CreateContext_settles nat "error + LlamaChatSessionInternal"

fun step :: "event \<Rightarrow> world \<Rightarrow> world" where
  "step (Call_loadModel c) s = snd (loadModel c s)"
| "step (Call_createNativeSession c systemInstruction history) s =
     snd (createNativeSession c systemInstruction history s)"
| "step (GetLlama_settles p r) s = getLlama_settles p r s"
| "step (Llama_loadModel_settles p r) s = llama_loadModel_settles p r s"
| "step (Model_awaited sid) s = model_awaited sid s"
| "step (CreateContext_settles sid r) s = createContext_settles sid r s"

definition run :: "event list \<Rightarrow> world \<Rightarrow> world" where
  "run evs s = fold step evs s"

text \<open>The cache holds an entry for \<open>key\<close> before, between and after the events.\<close>

fun present_throughout :: "jsstring \<Rightarrow> event list \<Rightarrow> world \<Rightarrow> bool" where
  "present_throughout key [] s = (modelCache s key \<noteq> None)"
| "present_throughout key (ev # evs) s =
     (modelCache s key \<noteq> None \<and> present_throughout key evs (step ev s))"

text \<open>The clients that acquire a model in a run.\<close>

fun acquirer :: "event \<Rightarrow> LlamaClient list" where
  "acquirer (Call_loadModel c) = [c]"
| "acquirer (Call_createNativeSession c systemInstruction h) = [c]"
| "acquirer ev = []"

definition acquirers :: "event list \<Rightarrow> LlamaClient list" where
  "acquirers evs = concat (map acquirer evs)"

subsection \<open>The chat-session wrapper\<close>

record LlamaChatSessionWrapper =
  history :: "Message list"
  sessionPromise :: nat
  client :: LlamaClient

text \<open>
  The constructor: \<^verbatim>\<open>initialHistory ? [...initialHistory] : []\<close> (an array is truthy), and
  the one call of \<^verbatim>\<open>createNativeSession\<close>, whose promise goes into the readonly field.
\<close>

definition new_LlamaChatSessionWrapper ::
  "LlamaClient \<Rightarrow> jsstring \<Rightarrow> Message list option \<Rightarrow> world \<Rightarrow> LlamaChatSessionWrapper \<times> world" where
  "new_LlamaChatSessionWrapper c systemInstruction initialHistory s =
     (let h = (case initialHistory of Some a \<Rightarrow> a | None \<Rightarrow> []);
          (p, s) = createNativeSession c systemInstruction (Some h) s
      in (\<lparr>history = h, sessionPromise = p, client = c\<rparr>, s))"

text \<open>
  \<^verbatim>\<open>session.prompt(text, options)\<close> belongs to the runtime: the state its promise reaches,
  given the session, the text and the options.
\<close>

type_synonym prompt_call =
  "LlamaChatSessionInternal \<Rightarrow> jsstring \<Rightarrow> js_object option \<Rightarrow> jsstring promise"

text \<open>
  \<^verbatim>\<open>sendMessage\<close> in a world \<open>s\<close>: the state its promise reaches and the wrapper it
  leaves. It awaits the session promise, then the prompt; a rejection is thrown at the
  \<^verbatim>\<open>await\<close> and ends the call, and a promise that stays pending leaves the call suspended.
  The history is read and written only after the second \<^verbatim>\<open>await\<close>, in one synchronous
  segment.
\<close>

definition sendMessage ::
  "world \<Rightarrow> prompt_call \<Rightarrow> jsstring \<Rightarrow> LlamaChatSessionWrapper
     \<Rightarrow> LLMResponse promise \<times> LlamaChatSessionWrapper" where
  "sendMessage s prompt text w =
     (case session_state s (sessionPromise w) of
        Pending \<Rightarrow> (Pending, w)
      | Rejected e \<Rightarrow> (Rejected e, w)
      | Fulfilled session \<Rightarrow>
          (case prompt session text (getPromptOptions (generationConfig (client w))) of
             Pending \<Rightarrow> (Pending, w)
           | Rejected e \<Rightarrow> (Rejected e, w)
           | Fulfilled responseText \<Rightarrow>
               (Fulfilled \<lparr>response_text = responseText\<rparr>,
                w\<lparr>history := history w
                     @ [\<lparr>role = User, parts = [\<lparr>part_text = text\<rparr>]\<rparr>]
                     @ [\<lparr>role = Model, parts = [\<lparr>part_text = responseText\<rparr>]\<rparr>]\<rparr>)))"

definition getHistory :: "LlamaChatSessionWrapper \<Rightarrow> Message list" where
  "getHistory w = history w"

subsection \<open>Concrete inputs\<close>

definition example_history :: "Message list" where
  "example_history =
     [\<lparr>role = User, parts = [\<lparr>part_text = js ''a''\<rparr>]\<rparr>,
      \<lparr>role = Model, parts = [\<lparr>part_text = js ''b''\<rparr>, \<lparr>part_text = js ''c''\<rparr>]\<rparr>,
      \<lparr>role = User, parts = [\<lparr>part_text = js ''d''\<rparr>]\<rparr>]"

definition history_40 :: "Message list" where
  "history_40 =
     [\<lparr>role = User, parts = [\<lparr>part_text = replicate 12 0x61\<rparr>]\<rparr>,
      \<lparr>role = Model, parts = [\<lparr>part_text = replicate 20 0x62\<rparr>, \<lparr>part_text = replicate 8 0x63\<rparr>]\<rparr>]"

definition history_41 :: "Message list" where
  "history_41 =
     [\<lparr>role = User, parts = [\<lparr>part_text = replicate 12 0x61\<rparr>]\<rparr>,
      \<lparr>role = Model, parts = [\<lparr>part_text = replicate 21 0x62\<rparr>, \<lparr>part_text = replicate 8 0x63\<rparr>]\<rparr>]"

definition history_10_30 :: "Message list" where
  "history_10_30 =
     [\<lparr>role = User, parts = [\<lparr>part_text = replicate 10 0x61\<rparr>]\<rparr>,
      \<lparr>role = Model, parts = [\<lparr>part_text = replicate 30 0x62\<rparr>]\<rparr>]"

definition stale_session :: LlamaChatSessionInternal where
  "stale_session =
     \<lparr>chatHistory = Some [ChatSystemMessage (js ''be brief'')],
      chatHistoryStateRef = Some [(''k'', Opaque 1)],
      lastEvaluation = Some (Opaque 2),
      canUseContextWindowForCompletion = Some True\<rparr>"

definition config_example :: LlamaGenerationConfig where
  "config_example =
     \<lparr>temperature = Some (Finite 0.7), topP = Some NaN, topK = Some (Finite 40), minP = None,
      maxTokens = Some PosInfinity, seed = None,
      responsePrefix = env_responsePrefix (Some (js '' Sure ''))\<rparr>"

definition client_a :: LlamaClient where
  "client_a =
     \<lparr>modelName = js ''llama-a'', modelPath = js ''m.gguf'', gpuLayers = 33, contextSize = 2048,
      generationConfig = DEFAULT_GENERATION_CONFIG\<rparr>"

definition client_b :: LlamaClient where
  "client_b =
     \<lparr>modelName = js ''llama-b'', modelPath = js ''m.gguf'', gpuLayers = 33, contextSize = 4096,
      generationConfig = DEFAULT_GENERATION_CONFIG\<lparr>temperature := Some (Finite 0.7)\<rparr>\<rparr>"

definition client_c :: LlamaClient where
  "client_c =
     \<lparr>modelName = js ''llama-c'', modelPath = js ''m.gguf'', gpuLayers = 0, contextSize = 2048,
      generationConfig = DEFAULT_GENERATION_CONFIG\<rparr>"

definition other_load :: "event list" where
  "other_load = [Call_loadModel client_c, GetLlama_settles 0 (Inr ())]"

definition history_with_empty_model :: "Message list" where
  "history_with_empty_model = example_history @ [\<lparr>role = Model, parts = []\<rparr>]"

definition load_failure :: error where
  "load_failure = Error (js ''corrupt weights'')"

definition first_load :: world where
  "first_load = snd (loadModel client_a process_start)"

definition load_succeeds :: "event list" where
  "load_succeeds =
     [Call_createNativeSession client_b (js ''be brief'') None,
      GetLlama_settles 0 (Inr ()),
      Llama_loadModel_settles 0 (Inr (LlamaModel 7))]"

definition load_rejects :: "event list" where
  "load_rejects = [GetLlama_settles 0 (Inr ()), Llama_loadModel_settles 0 (Inl load_failure)]"

definition wrapper_a :: LlamaChatSessionWrapper where
  "wrapper_a = \<lparr>history = example_history, sessionPromise = 0, client = client_a\<rparr>"

definition constructed :: world where
  "constructed =
     snd (new_LlamaChatSessionWrapper client_a (js ''be brief'') (Some example_history) process_start)"

definition backend_fails :: "event list" where
  "backend_fails = [GetLlama_settles 0 (Inl load_failure), Model_awaited 0]"

definition session_ready :: "event list" where
  "session_ready =
     [GetLlama_settles 0 (Inr ()), Llama_loadModel_settles 0 (Inr (LlamaModel 7)),
      Model_awaited 0, CreateContext_settles 0 (Inr stale_session)]"

definition prompt_hello :: prompt_call where
  "prompt_hello session input options = Fulfilled (js ''hello'')"

definition prompt_fails :: prompt_call where
  "prompt_fails session input options = Rejected (Error (js ''context overflow''))"

section \<open>The token heuristic\<close>

lemma ceil_quarter: "nat \<lceil>real n / 4\<rceil> = (n + 3) div 4"
  by linarith

lemma fold_plus_sum_list: "fold (\<lambda>x (acc::nat). acc + f x) xs a = a + sum_list (map f xs)"
  by (induction xs arbitrary: a) simp_all

lemma countHistoryTokens_sum:
  "countHistoryTokens h = (\<Sum>msg\<leftarrow>h. sum_list (map part_tokens (parts msg)))"
  unfolding countHistoryTokens_def fold_plus_sum_list
  by simp

lemma countHistoryTokens_lengths:
  "countHistoryTokens h = sum_list (map (\<lambda>n. (n + 3) div 4) (part_lengths h))"
  unfolding countHistoryTokens_sum part_lengths_def
  by (induction h) (simp_all add: part_tokens_def ceil_quarter comp_def)

text \<open>
  Claim C9. For every history, \<^verbatim>\<open>countHistoryTokens\<close> (the spec's
  \<^verbatim>\<open>estimateHistoryTokens\<close>) returns the sum, over every text part of every message, of
  the ceiling of that part's character length divided by four: the two nested loops with
  their accumulator compute the spec's double sum.
\<close>

theorem countHistoryTokens_refines_spec:
  "countHistoryTokens h = estimate_spec h"
  by (simp add: countHistoryTokens_sum estimate_spec_def part_tokens_def [abs_def])

theorem countHistoryTokens_refines_spec_witness:
  "countHistoryTokens history_10_30 = 11 \<and> estimate_spec history_10_30 = 11"
  using countHistoryTokens_refines_spec [of history_10_30]
  by (simp add: countHistoryTokens_lengths part_lengths_def history_10_30_def)

lemma quarters_all_multiples:
  fixes ls :: "nat list"
  shows "\<forall>n\<in>set ls. 4 dvd n \<Longrightarrow>
     sum_list (map (\<lambda>n. (n + 3) div 4) ls) = sum_list ls div 4 \<and> 4 dvd sum_list ls"
proof (induction ls)
  case Nil
  then show ?case by simp
next
  case (Cons x xs)
  then obtain k j where "x = 4 * k" and "sum_list xs = 4 * j"
    and "sum_list (map (\<lambda>n. (n + 3) div 4) xs) = j"
    by (auto elim!: dvdE)
  then show ?case by simp
qed

lemma quarters_one_exception:
  fixes ls :: "nat list"
  shows "length (filter (\<lambda>n. \<not> 4 dvd n) ls) \<le> 1 \<Longrightarrow>
     sum_list (map (\<lambda>n. (n + 3) div 4) ls) = (sum_list ls + 3) div 4"
proof (induction ls)
  case Nil
  then show ?case by simp
next
  case (Cons x xs)
  show ?case
  proof (cases "4 dvd x")
    case True
    then obtain k where "x = 4 * k" by (auto elim: dvdE)
    moreover from True Cons
    have "sum_list (map (\<lambda>n. (n + 3) div 4) xs) = (sum_list xs + 3) div 4" by simp
    ultimately show ?thesis by (simp add: add.assoc)
  next
    case False
    with Cons.prems have "filter (\<lambda>n. \<not> 4 dvd n) xs = []" by simp
    then have "\<forall>n\<in>set xs. 4 dvd n" by (simp add: filter_empty_conv)
    from quarters_all_multiples [OF this] obtain j
      where "sum_list xs = 4 * j" and "sum_list (map (\<lambda>n. (n + 3) div 4) xs) = j"
      by (auto elim!: dvdE)
    then show ?thesis by (simp add: add.commute [of x] add.assoc)
  qed
qed

text \<open>
  Claim C8, as stated, fails: the ceiling is taken part by part, so a history of 40
  characters in parts of 10 and 30 characters is estimated at \<open>3 + 8 = 11\<close> tokens, not
  at 10.
\<close>

theorem countHistoryTokens_total_40_counterexample:
  "total_text_length history_10_30 = 40 \<and> countHistoryTokens history_10_30 = 11 \<and>
   countHistoryTokens history_10_30 \<noteq> 10"
  by (simp add: total_text_length_def part_lengths_def history_10_30_def countHistoryTokens_lengths)

text \<open>
  Claim C8, amended. For every history in which at most one text part has a length that
  is not a multiple of four, \<^verbatim>\<open>countHistoryTokens\<close> returns the ceiling of a quarter of the
  total part-text length: 10 for a total of 40 characters and 11 for a total of 41.
\<close>

theorem countHistoryTokens_of_total:
  assumes "aligned_but_one h"
  shows "countHistoryTokens h = nat \<lceil>real (total_text_length h) / 4\<rceil> \<and>
         (total_text_length h = 40 \<longrightarrow> countHistoryTokens h = 10) \<and>
         (total_text_length h = 41 \<longrightarrow> countHistoryTokens h = 11)"
proof -
  from assms have "countHistoryTokens h = (total_text_length h + 3) div 4"
    unfolding aligned_but_one_def countHistoryTokens_lengths total_text_length_def
    by (rule quarters_one_exception)
  then show ?thesis by (simp add: ceil_quarter)
qed

theorem countHistoryTokens_of_total_witness:
  "aligned_but_one history_40 \<and> total_text_length history_40 = 40 \<and>
   countHistoryTokens history_40 = 10 \<and>
   aligned_but_one history_41 \<and> total_text_length history_41 = 41 \<and>
   countHistoryTokens history_41 = 11"
proof -
  have a: "aligned_but_one history_40" and b: "aligned_but_one history_41"
    by (simp_all add: aligned_but_one_def part_lengths_def history_40_def history_41_def)
  have t: "total_text_length history_40 = 40" "total_text_length history_41 = 41"
    by (simp_all add: total_text_length_def part_lengths_def history_40_def history_41_def)
  from countHistoryTokens_of_total [OF a] countHistoryTokens_of_total [OF b] a b t
  show ?thesis by simp
qed

section \<open>The history translator\<close>

lemma join_empty_sep: "join [] xs = concat xs"
  by (induction "[] :: jsstring" xs rule: join.induct) simp_all

lemma convert_message_item: "convert_message m items = items @ [native_item m]"
  by (simp add: convert_message_def native_item_def join_empty_sep)

lemma fold_convert_message: "fold convert_message h items = items @ map native_item h"
  by (induction h arbitrary: items) (simp_all add: convert_message_item)

lemma convertToChatHistory_map: "convertToChatHistory h = map native_item h"
  by (simp add: convertToChatHistory_def fold_convert_message)

text \<open>
  Claim C4, as stated, fails for a \<^verbatim>\<open>model\<close> message without parts: the sequence of its
  part texts is empty, and the item's response is \<^verbatim>\<open>[""]\<close>.
\<close>

theorem convertToChatHistory_empty_model_counterexample:
  "convertToChatHistory [\<lparr>role = Model, parts = []\<rparr>] = [ChatModelResponse [[]]] \<and>
   convertToChatHistory [\<lparr>role = Model, parts = []\<rparr>] \<noteq> map claimed_item [\<lparr>role = Model, parts = []\<rparr>]"
  by (simp add: convertToChatHistory_def convert_message_def claimed_item_def)

text \<open>
  Claim C4, amended. History translation emits one native item per message, in the same
  order. For a \<^verbatim>\<open>user\<close> message the item's text is the concatenation of all its part
  texts, with no separator. For a \<^verbatim>\<open>model\<close> message with at least one part the item's
  response is the ordered sequence of its part texts, not concatenated; for a \<^verbatim>\<open>model\<close>
  message with no part it is the one-element sequence holding the empty string. The empty
  history yields the empty sequence. (The translation is a function of the history alone.)
\<close>

theorem convertToChatHistory_translation:
  "length (convertToChatHistory h) = length h \<and>
   (\<forall>i<length h.
      (role (h ! i) = User \<longrightarrow>
         convertToChatHistory h ! i = ChatUserMessage (concat (map part_text (parts (h ! i))))) \<and>
      (role (h ! i) = Model \<longrightarrow> parts (h ! i) \<noteq> [] \<longrightarrow>
         convertToChatHistory h ! i = ChatModelResponse (map part_text (parts (h ! i)))) \<and>
      (role (h ! i) = Model \<longrightarrow> parts (h ! i) = [] \<longrightarrow>
         convertToChatHistory h ! i = ChatModelResponse [[]])) \<and>
   convertToChatHistory [] = []"
  by (simp add: convertToChatHistory_map native_item_def)

theorem convertToChatHistory_translation_witness:
  "length (convertToChatHistory history_with_empty_model) = 4 \<and>
   convertToChatHistory history_with_empty_model ! 0 = ChatUserMessage (js ''a'') \<and>
   convertToChatHistory history_with_empty_model ! 1 = ChatModelResponse [js ''b'', js ''c''] \<and>
   convertToChatHistory history_with_empty_model ! 2 = ChatUserMessage (js ''d'') \<and>
   convertToChatHistory history_with_empty_model ! 3 = ChatModelResponse [[]] \<and>
   convertToChatHistory [] = []"
  using convertToChatHistory_translation [of history_with_empty_model]
  by (simp add: history_with_empty_model_def example_history_def All_less_Suc numeral_2_eq_2 numeral_3_eq_3)

text \<open>
  Claim C10. For every \<^verbatim>\<open>model\<close>-role message with an empty sequence of parts, history
  translation emits a native model item whose response is the one-element sequence
  containing the empty string, never an empty sequence.
\<close>

theorem convertToChatHistory_empty_model_parts:
  "i < length h \<Longrightarrow> role (h ! i) = Model \<Longrightarrow> parts (h ! i) = [] \<Longrightarrow>
     convertToChatHistory h ! i = ChatModelResponse [[]] \<and>
     convertToChatHistory h ! i \<noteq> ChatModelResponse []"
  by (simp add: convertToChatHistory_map native_item_def)

theorem convertToChatHistory_empty_model_parts_witness:
  "convertToChatHistory [\<lparr>role = User, parts = [\<lparr>part_text = js ''q''\<rparr>]\<rparr>, \<lparr>role = Model, parts = []\<rparr>] ! 1
     = ChatModelResponse [[]]"
  using convertToChatHistory_empty_model_parts
    [of 1 "[\<lparr>role = User, parts = [\<lparr>part_text = js ''q''\<rparr>]\<rparr>, \<lparr>role = Model, parts = []\<rparr>]"]
  by simp

text \<open>
  Claim C5. Hydration appends the translated items after the session's existing native
  history items, which all stay in place and in order, if and only if the translation is
  not empty (an empty translation leaves the session as it was); after appending, the
  cached evaluation state is cleared (\<^verbatim>\<open>_chatHistoryStateRef\<close> is an empty object,
  \<^verbatim>\<open>_lastEvaluation\<close> is \<^verbatim>\<open>undefined\<close>) and the context-window-reuse flag is false.
\<close>

theorem hydrateNativeHistory_appends:
  "(convertToChatHistory h \<noteq> [] \<longrightarrow>
      (\<exists>existing.
         (chatHistory session = Some existing \<or> chatHistory session = None \<and> existing = []) \<and>
         chatHistory (hydrateNativeHistory session h)
           = Some (existing @ convertToChatHistory h)) \<and>
      chatHistoryStateRef (hydrateNativeHistory session h) = Some [] \<and>
      lastEvaluation (hydrateNativeHistory session h) = None \<and>
      canUseContextWindowForCompletion (hydrateNativeHistory session h) = Some False) \<and>
   (convertToChatHistory h = [] \<longrightarrow> hydrateNativeHistory session h = session) \<and>
   (convertToChatHistory h = [] \<longleftrightarrow> h = [])"
  by (cases "chatHistory session") (simp_all add: hydrateNativeHistory_def Let_def convertToChatHistory_map)

theorem hydrateNativeHistory_appends_witness:
  "chatHistory (hydrateNativeHistory stale_session example_history)
     = Some [ChatSystemMessage (js ''be brief''), ChatUserMessage (js ''a''),
             ChatModelResponse [js ''b'', js ''c''], ChatUserMessage (js ''d'')] \<and>
   chatHistoryStateRef (hydrateNativeHistory stale_session example_history) = Some [] \<and>
   lastEvaluation (hydrateNativeHistory stale_session example_history) = None \<and>
   canUseContextWindowForCompletion (hydrateNativeHistory stale_session example_history) = Some False \<and>
   hydrateNativeHistory stale_session [] = stale_session"
  using hydrateNativeHistory_appends [of example_history stale_session]
    hydrateNativeHistory_appends [of "[]" stale_session]
  by (simp add: stale_session_def example_history_def convertToChatHistory_def convert_message_def)

section \<open>The prompt options\<close>

lemma update_fresh: "k \<notin> fst ` set al \<Longrightarrow> AList.update k v al = al @ [(k, v)]"
  by (induction al) auto

lemma keys_finite_field: "k' \<noteq> k \<Longrightarrow> k' \<notin> fst ` set (finite_field k v)"
  by (auto simp: finite_field_def split: option.splits number.splits)

lemma set_if_finite_append:
  "k \<notin> fst ` set options \<Longrightarrow> set_if_finite k v options = options @ finite_field k v"
  by (auto simp: set_if_finite_def finite_field_def isFiniteNumber_def update_fresh
      split: option.splits number.splits)

lemma set_if_truthy_append:
  "k \<notin> fst ` set options \<Longrightarrow>
     set_if_truthy k v options
       = options @ (case v of Some s \<Rightarrow> if s \<noteq> [] then [(k, StringV s)] else [] | None \<Rightarrow> [])"
  by (auto simp: set_if_truthy_def update_fresh split: option.splits)

lemma getPromptOptions_fields: "getPromptOptions g = options_spec nonempty g"
proof -
  let ?o1 = "finite_field ''temperature'' (temperature g)"
  let ?o2 = "?o1 @ finite_field ''topP'' (topP g)"
  let ?o3 = "?o2 @ finite_field ''topK'' (topK g)"
  let ?o4 = "?o3 @ finite_field ''minP'' (minP g)"
  let ?o5 = "?o4 @ finite_field ''maxTokens'' (maxTokens g)"
  let ?o6 = "?o5 @ finite_field ''seed'' (seed g)"
  have s1: "set_if_finite ''temperature'' (temperature g) [] = ?o1"
    by (simp add: set_if_finite_append)
  have s2: "set_if_finite ''topP'' (topP g) ?o1 = ?o2"
    by (rule set_if_finite_append) (simp add: image_Un keys_finite_field)
  have s3: "set_if_finite ''topK'' (topK g) ?o2 = ?o3"
    by (rule set_if_finite_append) (simp add: image_Un keys_finite_field)
  have s4: "set_if_finite ''minP'' (minP g) ?o3 = ?o4"
    by (rule set_if_finite_append) (simp add: image_Un keys_finite_field)
  have s5: "set_if_finite ''maxTokens'' (maxTokens g) ?o4 = ?o5"
    by (rule set_if_finite_append) (simp add: image_Un keys_finite_field)
  have s6: "set_if_finite ''seed'' (seed g) ?o5 = ?o6"
    by (rule set_if_finite_append) (simp add: image_Un keys_finite_field)
  have s7: "set_if_truthy ''responsePrefix'' (responsePrefix g) ?o6
              = ?o6 @ prefix_field nonempty (responsePrefix g)"
    unfolding prefix_field_def nonempty_def
    by (rule set_if_truthy_append) (simp add: image_Un keys_finite_field)
  show ?thesis
    unfolding getPromptOptions_def Let_def s1 s2 s3 s4 s5 s6 s7
    by (simp add: options_spec_def applicable_fields_def Object_keys_def)
qed

lemma dropWhile_unchanged: "xs = [] \<or> \<not> P (hd xs) \<Longrightarrow> dropWhile P xs = xs"
  by (cases xs) auto

lemma rev_dropWhile_rev_prefix: "\<exists>w. t = rev (dropWhile P (rev t)) @ w"
proof -
  have "rev (dropWhile P (rev t)) @ rev (takeWhile P (rev t))
          = rev (takeWhile P (rev t) @ dropWhile P (rev t))"
    by (simp only: rev_append)
  also have "\<dots> = t" by simp
  finally have "t = rev (dropWhile P (rev t)) @ rev (takeWhile P (rev t))" by (rule sym)
  then show ?thesis ..
qed

lemma stripped_keeps_head:
  assumes "t = [] \<or> \<not> P (hd t)" and "u = rev (dropWhile P (rev t))"
  shows "u = [] \<or> \<not> P (hd u)"
proof (cases u)
  case Nil
  then show ?thesis by simp
next
  case (Cons a us)
  from rev_dropWhile_rev_prefix [of t P] assms(2) obtain w where "t = u @ w" by blast
  with Cons have "t = a # us @ w" by simp
  with assms(1) have "\<not> P a" by simp
  with Cons show ?thesis by simp
qed

lemma trim_trim: "trim (trim s) = trim s"
proof -
  have "dropWhile isWhiteSpace s = [] \<or> \<not> isWhiteSpace (hd (dropWhile isWhiteSpace s))"
    using hd_dropWhile [of isWhiteSpace s] by blast
  then have "trim s = [] \<or> \<not> isWhiteSpace (hd (trim s))"
    by (rule stripped_keeps_head) (simp only: trim_def)
  then have "dropWhile isWhiteSpace (trim s) = trim s" by (rule dropWhile_unchanged)
  moreover have "dropWhile isWhiteSpace (rev (trim s)) = rev (trim s)"
    by (simp add: trim_def)
  ultimately show ?thesis by (simp add: trim_def [of "trim s"])
qed

lemma env_responsePrefix_trimmed:
  "env_responsePrefix v = Some s \<Longrightarrow> nonempty_trimmed s"
  by (auto simp: env_responsePrefix_def nonempty_trimmed_def trim_trim split: option.splits if_splits)

lemma prefix_field_trimmed:
  "prefix_field nonempty_trimmed (env_responsePrefix v) = prefix_field nonempty (env_responsePrefix v)"
  by (cases "env_responsePrefix v")
     (auto simp: prefix_field_def nonempty_def nonempty_trimmed_def dest: env_responsePrefix_trimmed)

text \<open>
  Claim C7, as stated, fails: \<^verbatim>\<open>getPromptOptions\<close> tests the prefix for truthiness only
  and does not trim it. For a configuration whose prefix is one space, which is not a
  non-empty trimmed string, it returns the record \<^verbatim>\<open>{responsePrefix: " "}\<close>, where the
  claim's fields give "unset".
\<close>

theorem getPromptOptions_untrimmed_prefix_counterexample:
  "getPromptOptions (DEFAULT_GENERATION_CONFIG\<lparr>responsePrefix := Some (js '' '')\<rparr>)
     = Some [(''responsePrefix'', StringV (js '' ''))] \<and>
   trim (js '' '') = [] \<and> \<not> nonempty_trimmed (js '' '') \<and>
   options_spec nonempty_trimmed (DEFAULT_GENERATION_CONFIG\<lparr>responsePrefix := Some (js '' '')\<rparr>) = None"
  by (simp add: getPromptOptions_def set_if_finite_def set_if_truthy_def Object_keys_def
        DEFAULT_GENERATION_CONFIG_def options_spec_def applicable_fields_def finite_field_def
        prefix_field_def nonempty_trimmed_def trim_def js_def isWhiteSpace_def)

text \<open>
  Claim C7, amended. \<^verbatim>\<open>getPromptOptions\<close> returns a record containing exactly those
  generation-config fields that are set and numerically finite and, for the response
  prefix, set to a non-empty string (it is \<^verbatim>\<open>fromEnvironment\<close> that trims the prefix, so for
  a prefix read from the environment these are the non-empty trimmed strings); it returns
  "unset", not an empty record, when no field applies. With all fields unset it returns
  "unset", and with only \<^verbatim>\<open>temperature = 0.7\<close> set it returns exactly
  \<^verbatim>\<open>{temperature: 0.7}\<close>.
\<close>

theorem getPromptOptions_sparse:
  "getPromptOptions g = options_spec nonempty g \<and>
   (responsePrefix g = env_responsePrefix v \<longrightarrow> getPromptOptions g = options_spec nonempty_trimmed g) \<and>
   getPromptOptions DEFAULT_GENERATION_CONFIG = None \<and>
   getPromptOptions (DEFAULT_GENERATION_CONFIG\<lparr>temperature := Some (Finite 0.7)\<rparr>)
     = Some [(''temperature'', NumberV (Finite 0.7))]"
proof -
  have "responsePrefix g = env_responsePrefix v \<Longrightarrow>
          options_spec nonempty_trimmed g = options_spec nonempty g"
    by (simp add: options_spec_def applicable_fields_def prefix_field_trimmed)
  then show ?thesis
    by (simp add: getPromptOptions_fields)
       (simp add: options_spec_def applicable_fields_def finite_field_def prefix_field_def
          DEFAULT_GENERATION_CONFIG_def)
qed

theorem getPromptOptions_sparse_witness:
  "responsePrefix config_example = env_responsePrefix (Some (js '' Sure '')) \<and>
   getPromptOptions config_example = options_spec nonempty_trimmed config_example \<and>
   getPromptOptions config_example
     = Some [(''temperature'', NumberV (Finite 0.7)), (''topK'', NumberV (Finite 40)),
             (''responsePrefix'', StringV (js ''Sure''))]"
proof -
  have p: "responsePrefix config_example = env_responsePrefix (Some (js '' Sure ''))"
    by (simp add: config_example_def)
  note th = getPromptOptions_sparse [of config_example "Some (js '' Sure '')"]
  from th have "getPromptOptions config_example = options_spec nonempty config_example"
    by (rule conjunct1)
  moreover from th p
  have "getPromptOptions config_example = options_spec nonempty_trimmed config_example"
    by blast
  ultimately show ?thesis using p
    by (simp add: options_spec_def applicable_fields_def finite_field_def prefix_field_def
          config_example_def env_responsePrefix_def nonempty_def nonempty_trimmed_def trim_def
          js_def isWhiteSpace_def)
qed

section \<open>The cache key\<close>

lemma digit_unat: "d < 10 \<Longrightarrow> unat (of_nat (48 + d) :: 16 word) = 48 + d"
  by (simp only: unat_of_nat) simp

lemma digits_value_digits: "digits_value (digits n) = n"
proof (induction n rule: digits.induct)
  case (1 n)
  show ?case
  proof (cases "n < 10")
    case True
    then show ?thesis
      by (subst digits.simps) (simp add: digits_value_def digit_unat del: of_nat_add)
  next
    case False
    with 1 have ih: "digits_value (digits (n div 10)) = n div 10" by simp
    have "n mod 10 < 10" by simp
    then have u: "unat (of_nat (48 + n mod 10) :: 16 word) = 48 + n mod 10" by (rule digit_unat)
    have "digits_value (digits n) = 10 * digits_value (digits (n div 10)) + n mod 10"
      using False u by (subst digits.simps) (simp add: digits_value_def del: of_nat_add)
    with ih show ?thesis by simp
  qed
qed

lemma digits_chars: "w \<in> set (digits n) \<Longrightarrow> 48 \<le> unat w \<and> unat w \<le> 57"
proof (induction n rule: digits.induct)
  case (1 n)
  have m: "n mod 10 < 10" by simp
  show ?case
  proof (cases "n < 10")
    case True
    then have "digits n = [of_nat (48 + n)]" by (subst digits.simps) (simp only: if_True)
    with 1(2) have "w = of_nat (48 + n)" by (simp only: set_simps singleton_iff empty_iff)
    then have "unat w = 48 + n" using digit_unat [OF True] by (simp only:)
    with True show ?thesis by simp
  next
    case False
    then have "digits n = digits (n div 10) @ [of_nat (48 + n mod 10)]"
      by (subst digits.simps) (simp only: if_False)
    with 1(2) have "w \<in> set (digits (n div 10)) \<or> w = of_nat (48 + n mod 10)"
      by (simp only: set_append set_simps Un_iff singleton_iff empty_iff insert_iff simp_thms)
    then show ?thesis
    proof
      assume "w \<in> set (digits (n div 10))"
      with 1(1) [OF False] show ?thesis .
    next
      assume "w = of_nat (48 + n mod 10)"
      then have "unat w = 48 + n mod 10" using digit_unat [OF m] by (simp only:)
      with m show ?thesis by simp
    qed
  qed
qed

lemma digits_nonempty: "digits n \<noteq> []"
  by (subst digits.simps) simp

lemma digits_inj:
  assumes "digits m = digits n"
  shows "m = n"
proof -
  from assms have "digits_value (digits m) = digits_value (digits n)" by (rule arg_cong)
  then show ?thesis by (simp only: digits_value_digits)
qed

lemma Number_toString_bar: "0x7C \<notin> set (Number_toString i)"
  using digits_chars [of "0x7C"]
  by (auto simp: Number_toString_def js_def)

lemma Number_toString_inj: "Number_toString i = Number_toString j \<Longrightarrow> i = j"
proof -
  have neg: "hd (js ''-'' @ digits m) = 0x2D" for m by (simp add: js_def)
  have pos: "hd (digits m) \<noteq> 0x2D" for m
    using digits_chars [of "hd (digits m)" m] digits_nonempty [of m] by auto
  assume a: "Number_toString i = Number_toString j"
  show ?thesis
  proof (cases "i < 0")
    case True
    show ?thesis
    proof (cases "j < 0")
      case j: True
      with True a have "digits (nat (- i)) = digits (nat (- j))" by (simp add: Number_toString_def)
      then have "nat (- i) = nat (- j)" by (rule digits_inj)
      with True j show ?thesis by simp
    next
      case False
      with True a have "js ''-'' @ digits (nat (- i)) = digits (nat j)" by (simp add: Number_toString_def)
      with neg [of "nat (- i)"] pos [of "nat j"] show ?thesis by simp
    qed
  next
    case False
    show ?thesis
    proof (cases "j < 0")
      case True
      with False a have "digits (nat i) = js ''-'' @ digits (nat (- j))" by (simp add: Number_toString_def)
      with neg [of "nat (- j)"] pos [of "nat i"] show ?thesis by simp
    next
      case j: False
      with False a have "digits (nat i) = digits (nat j)" by (simp add: Number_toString_def)
      then have "nat i = nat j" by (rule digits_inj)
      with False j show ?thesis by simp
    qed
  qed
qed

lemma split_at_last_bar:
  assumes "p1 @ x # d1 = p2 @ x # d2" and "x \<notin> set d1" and "x \<notin> set d2"
  shows "p1 = p2 \<and> d1 = d2"
proof -
  from assms(1) have "rev (p1 @ x # d1) = rev (p2 @ x # d2)" by (rule arg_cong)
  then have e: "rev d1 @ x # rev p1 = rev d2 @ x # rev p2" by simp
  have "takeWhile (\<lambda>y. y \<noteq> x) (rev d1 @ x # rev p1) = rev d1"
    using assms(2) by (auto simp: takeWhile_tail takeWhile_eq_all_conv)
  moreover have "takeWhile (\<lambda>y. y \<noteq> x) (rev d2 @ x # rev p2) = rev d2"
    using assms(3) by (auto simp: takeWhile_tail takeWhile_eq_all_conv)
  ultimately have "rev d1 = rev d2" using e by simp
  then have "d1 = d2" by simp
  with assms(1) show ?thesis by simp
qed

lemma cacheKey_inj: "cacheKey c = cacheKey c' \<longleftrightarrow> fingerprint c = fingerprint c'"
proof
  assume "cacheKey c = cacheKey c'"
  then have "modelPath c @ 0x7C # Number_toString (gpuLayers c)
             = modelPath c' @ 0x7C # Number_toString (gpuLayers c')"
    by (simp add: cacheKey_def js_def)
  from split_at_last_bar [OF this Number_toString_bar Number_toString_bar]
  show "fingerprint c = fingerprint c'"
    by (auto simp: fingerprint_def dest: Number_toString_inj)
next
  assume "fingerprint c = fingerprint c'"
  then show "cacheKey c = cacheKey c'" by (simp add: fingerprint_def cacheKey_def)
qed

section \<open>The model cache\<close>

lemma loadModel_hit: "modelCache s (cacheKey c) = Some p \<Longrightarrow> loadModel c s = (Some p, s)"
  by (simp add: loadModel_def)

lemma loadModel_miss:
  "modelCache s (cacheKey c) = None \<Longrightarrow>
     loadModel c s =
       (Some (length (modelPromises s)),
        s\<lparr>modelPromises := modelPromises s @ [AwaitGetLlama c],
          getLlamaCalls := Suc (getLlamaCalls s),
          modelCache := (modelCache s)(cacheKey c \<mapsto> length (modelPromises s))\<rparr>)"
  by (simp add: loadModel_def)

lemma loadModel_cache:
  "modelCache (snd (loadModel c s)) k = (if k = cacheKey c \<and> modelCache s k = None
     then Some (length (modelPromises s)) else modelCache s k)"
  by (auto simp: loadModel_def Let_def)

lemma createNativeSession_cache:
  "modelCache (snd (createNativeSession c sys h s)) k = modelCache (snd (loadModel c s)) k"
  by (simp add: createNativeSession_def split_beta Let_def)

lemma getLlama_settles_cache:
  "modelCache (getLlama_settles p r s) k = modelCache s k \<or> modelCache (getLlama_settles p r s) k = None"
  by (simp add: getLlama_settles_def split: model_task.splits sum.splits)

lemma llama_loadModel_settles_cache: "modelCache (llama_loadModel_settles p r s) = modelCache s"
  by (simp add: llama_loadModel_settles_def)

lemma model_awaited_cache: "modelCache (model_awaited sid s) = modelCache s"
  by (simp add: model_awaited_def settle_session_def
      split: session_task.splits option.splits model_task.splits sum.splits)

lemma createContext_settles_cache: "modelCache (createContext_settles sid r s) = modelCache s"
  by (simp add: createContext_settles_def settle_session_def
      split: session_task.splits sum.splits)

text \<open>An event keeps the entry of a key or removes it; only an acquisition fills an empty one.\<close>

lemma step_keeps_or_evicts:
  "modelCache s k = Some p \<Longrightarrow> modelCache (step ev s) k = Some p \<or> modelCache (step ev s) k = None"
proof (cases ev)
  case (GetLlama_settles q r)
  assume "modelCache s k = Some p"
  with getLlama_settles_cache [of q r s k] GetLlama_settles show ?thesis by auto
qed (simp_all add: loadModel_cache createNativeSession_cache llama_loadModel_settles_cache
       model_awaited_cache createContext_settles_cache)

lemma step_fills_only_by_acquirer:
  "modelCache s k = None \<Longrightarrow> modelCache (step ev s) k \<noteq> None \<Longrightarrow> \<exists>c\<in>set (acquirer ev). cacheKey c = k"
proof (cases ev)
  case (GetLlama_settles q r)
  assume "modelCache s k = None" "modelCache (step ev s) k \<noteq> None"
  with getLlama_settles_cache [of q r s k] GetLlama_settles show ?thesis by auto
qed (simp_all add: loadModel_cache createNativeSession_cache llama_loadModel_settles_cache
       model_awaited_cache createContext_settles_cache split: if_splits)

lemma run_Cons: "run (ev # evs) s = run evs (step ev s)"
  by (simp add: run_def)

lemma run_fills_only_by_acquirers:
  "modelCache s k = None \<Longrightarrow> \<forall>c\<in>set (acquirers evs). cacheKey c \<noteq> k \<Longrightarrow>
     modelCache (run evs s) k = None"
proof (induction evs arbitrary: s)
  case Nil
  then show ?case by (simp add: run_def)
next
  case (Cons ev evs)
  from Cons.prems(2) have a: "\<forall>c\<in>set (acquirer ev). cacheKey c \<noteq> k"
    and b: "\<forall>c\<in>set (acquirers evs). cacheKey c \<noteq> k"
    by (simp_all add: acquirers_def)
  from a Cons.prems(1) have "modelCache (step ev s) k = None"
    using step_fills_only_by_acquirer [of s k ev] by blast
  from Cons.IH [OF this b] show ?case by (simp add: run_Cons)
qed

lemma present_throughout_run:
  "modelCache s k = Some p \<Longrightarrow> present_throughout k evs s \<Longrightarrow> modelCache (run evs s) k = Some p"
proof (induction evs arbitrary: s)
  case Nil
  then show ?case by (simp add: run_def)
next
  case (Cons ev evs)
  from Cons.prems(2) have n: "present_throughout k evs (step ev s)" by simp
  then have "modelCache (step ev s) k \<noteq> None" by (cases evs) simp_all
  with step_keeps_or_evicts [OF Cons.prems(1), of ev] have "modelCache (step ev s) k = Some p" by blast
  from Cons.IH [OF this n] show ?case by (simp add: run_Cons)
qed

lemma same_key: "cacheKey client_b = cacheKey client_a"
  by (simp add: cacheKey_def client_a_def client_b_def)

lemma first_load_eq:
  "first_load =
     \<lparr>modelCache = [cacheKey client_a \<mapsto> 0], modelPromises = [AwaitGetLlama client_a],
      getLlamaCalls = 1, loadModelCalls = [], sessionPromises = [], createContextCalls = []\<rparr>"
  by (simp add: first_load_def loadModel_def process_start_def)

lemma load_succeeds_eq:
  "run load_succeeds first_load =
     \<lparr>modelCache = [cacheKey client_a \<mapsto> 0], modelPromises = [ModelSettled (Inr (LlamaModel 7))],
      getLlamaCalls = 1, loadModelCalls = [(js ''m.gguf'', 33)],
      sessionPromises = [AwaitModel (Some 0) client_b (js ''be brief'') None],
      createContextCalls = []\<rparr>"
  by (simp add: first_load_eq load_succeeds_def run_def createNativeSession_def loadModel_def
        same_key getLlama_settles_def llama_loadModel_settles_def)
    (simp add: client_a_def)

text \<open>
  Claim C1. For every fingerprint (model path, accelerator-layer count): an acquisition
  that no acquisition for that fingerprint has preceded since the start of the process
  finds no cache entry; an acquisition that finds no entry calls the loader exactly once
  (one call of \<^verbatim>\<open>getLlama\<close>) and stores the pending operation; and every later acquisition
  by a client of the same fingerprint, whatever happens in between as long as the entry is
  present, returns that same operation and leaves the world as it is, so that the loader is
  not called again and all these callers see the one outcome of that operation.
\<close>

theorem loadModel_single_flight:
  assumes "loadModel c s = (r, s1)"
  shows "((\<forall>c'\<in>set (acquirers pre). fingerprint c' \<noteq> fingerprint c) \<and> s = run pre process_start
            \<longrightarrow> modelCache s (cacheKey c) = None) \<and>
         (modelCache s (cacheKey c) = None \<longrightarrow>
            r = Some (length (modelPromises s)) \<and>
            modelCache s1 (cacheKey c) = r \<and>
            model_state s1 (length (modelPromises s)) = Pending \<and>
            getLlamaCalls s1 = Suc (getLlamaCalls s) \<and>
            (\<forall>evs c'. fingerprint c' = fingerprint c \<longrightarrow> present_throughout (cacheKey c) evs s1 \<longrightarrow>
               loadModel c' (run evs s1) = (r, run evs s1)))"
proof (intro conjI impI)
  assume "(\<forall>c'\<in>set (acquirers pre). fingerprint c' \<noteq> fingerprint c) \<and> s = run pre process_start"
  then have a: "\<forall>c'\<in>set (acquirers pre). cacheKey c' \<noteq> cacheKey c" and s: "s = run pre process_start"
    by (simp_all add: cacheKey_inj)
  have "modelCache process_start (cacheKey c) = None" by (simp add: process_start_def)
  from run_fills_only_by_acquirers [OF this a] s show "modelCache s (cacheKey c) = None" by simp
next
  assume miss: "modelCache s (cacheKey c) = None"
  from loadModel_miss [OF miss] assms
  have r: "r = Some (length (modelPromises s))"
    and s1: "s1 = s\<lparr>modelPromises := modelPromises s @ [AwaitGetLlama c],
          getLlamaCalls := Suc (getLlamaCalls s),
          modelCache := (modelCache s)(cacheKey c \<mapsto> length (modelPromises s))\<rparr>"
    by simp_all
  show "r = Some (length (modelPromises s))" by (rule r)
  show stored: "modelCache s1 (cacheKey c) = r" by (simp add: r s1)
  show "model_state s1 (length (modelPromises s)) = Pending" by (simp add: s1 model_state_def)
  show "getLlamaCalls s1 = Suc (getLlamaCalls s)" by (simp add: s1)
  show "\<forall>evs c'. fingerprint c' = fingerprint c \<longrightarrow> present_throughout (cacheKey c) evs s1 \<longrightarrow>
               loadModel c' (run evs s1) = (r, run evs s1)"
  proof (intro allI impI)
    fix evs c'
    assume f: "fingerprint c' = fingerprint c" and p: "present_throughout (cacheKey c) evs s1"
    from f have k: "cacheKey c' = cacheKey c" by (simp add: cacheKey_inj)
    from stored r have "modelCache s1 (cacheKey c) = Some (length (modelPromises s))" by simp
    from present_throughout_run [OF this p]
    have "modelCache (run evs s1) (cacheKey c') = Some (length (modelPromises s))" by (simp add: k)
    from loadModel_hit [OF this] r show "loadModel c' (run evs s1) = (r, run evs s1)" by simp
  qed
qed

theorem loadModel_single_flight_witness:
  "fingerprint client_c \<noteq> fingerprint client_a \<and>
   modelCache (run other_load process_start) (cacheKey client_a) = None \<and>
   loadModel client_a (run other_load process_start)
     = (Some 1, snd (loadModel client_a (run other_load process_start))) \<and>
   getLlamaCalls (snd (loadModel client_a (run other_load process_start))) = 2 \<and>
   modelCache process_start (cacheKey client_a) = None \<and>
   loadModel client_a process_start = (Some 0, first_load) \<and>
   getLlamaCalls first_load = 1 \<and>
   fingerprint client_b = fingerprint client_a \<and>
   present_throughout (cacheKey client_a) load_succeeds first_load \<and>
   loadModel client_b (run load_succeeds first_load) = (Some 0, run load_succeeds first_load) \<and>
   getLlamaCalls (run load_succeeds first_load) = 1 \<and>
   model_state (run load_succeeds first_load) 0 = Fulfilled (LlamaModel 7)"
proof -
  let ?s = "run other_load process_start"
  have other: "fingerprint client_c \<noteq> fingerprint client_a"
    by (simp add: fingerprint_def client_a_def client_c_def)
  then have pre: "\<forall>c'\<in>set (acquirers other_load). fingerprint c' \<noteq> fingerprint client_a"
    by (simp add: acquirers_def other_load_def)
  have split: "loadModel client_a ?s = (fst (loadModel client_a ?s), snd (loadModel client_a ?s))"
    by simp
  note th = loadModel_single_flight [OF split, of other_load]
  from th pre have miss': "modelCache ?s (cacheKey client_a) = None" by blast
  have len: "length (modelPromises ?s) = 1" "getLlamaCalls ?s = 1"
    by (simp_all add: other_load_def run_def loadModel_def process_start_def getLlama_settles_def)
  from th miss' len have r': "fst (loadModel client_a ?s) = Some 1"
    and g': "getLlamaCalls (snd (loadModel client_a ?s)) = 2"
    by simp_all
  from r' have call': "loadModel client_a ?s = (Some 1, snd (loadModel client_a ?s))"
    by (simp add: prod_eq_iff)
  have miss: "modelCache process_start (cacheKey client_a) = None"
    by (simp add: process_start_def)
  have call: "loadModel client_a process_start = (Some 0, first_load)"
    by (simp add: first_load_def loadModel_def process_start_def)
  have fp: "fingerprint client_b = fingerprint client_a"
    by (simp add: fingerprint_def client_a_def client_b_def)
  have pres: "present_throughout (cacheKey client_a) load_succeeds first_load"
    by (simp add: first_load_eq load_succeeds_def createNativeSession_def loadModel_def
          same_key getLlama_settles_def llama_loadModel_settles_def)
  from loadModel_single_flight [OF call, of "[]"] miss fp pres
  have again: "loadModel client_b (run load_succeeds first_load) = (Some 0, run load_succeeds first_load)"
    by blast
  have g1: "getLlamaCalls first_load = 1" by (simp add: first_load_eq)
  have g2: "getLlamaCalls (run load_succeeds first_load) = 1" by (simp add: load_succeeds_eq)
  have g3: "model_state (run load_succeeds first_load) 0 = Fulfilled (LlamaModel 7)"
    by (simp add: load_succeeds_eq model_state_def)
  from other miss' call' g' miss call g1 fp pres again g2 g3 show ?thesis by (intro conjI)
qed

text \<open>
  Claim C2 does not hold of the code. When \<^verbatim>\<open>getLlama()\<close> resolves and the promise
  returned by \<^verbatim>\<open>llama.loadModel(...)\<close> rejects, the model promise is rejected, so every
  waiter sees the failure, but the \<^verbatim>\<open>catch\<close> clause has not run: the cache still holds the
  entry, and the next acquisition for the fingerprint returns the rejected promise without
  a new call of the loader. Only a rejection of \<^verbatim>\<open>getLlama()\<close> itself removes the entry
  (last conjunct).
\<close>

theorem loadModel_rejection_stays_cached:
  "modelCache (run load_rejects first_load) (cacheKey client_a) = Some 0 \<and>
   model_state (run load_rejects first_load) 0 = Rejected load_failure \<and>
   loadModel client_a (run load_rejects first_load) = (Some 0, run load_rejects first_load) \<and>
   getLlamaCalls (run load_rejects first_load) = 1 \<and>
   loadModelCalls (run load_rejects first_load) = [(modelPath client_a, gpuLayers client_a)] \<and>
   modelCache (run [GetLlama_settles 0 (Inl load_failure)] first_load) (cacheKey client_a) = None"
  by (simp add: first_load_eq load_rejects_def run_def getLlama_settles_def
        llama_loadModel_settles_def model_state_def loadModel_def)

section \<open>The chat-session wrapper\<close>

lemma loadModel_sessions: "sessionPromises (snd (loadModel c s)) = sessionPromises s"
  by (simp add: loadModel_def Let_def)

lemma createNativeSession_sessions:
  "sessionPromises (snd (createNativeSession c sys h s))
     = sessionPromises s @ [AwaitModel (fst (loadModel c s)) c sys h]"
  by (simp add: createNativeSession_def split_beta Let_def loadModel_sessions)

lemma getLlama_settles_sessions: "sessionPromises (getLlama_settles p r s) = sessionPromises s"
  by (simp add: getLlama_settles_def split: model_task.splits sum.splits)

lemma llama_loadModel_settles_sessions:
  "sessionPromises (llama_loadModel_settles p r s) = sessionPromises s"
  by (simp add: llama_loadModel_settles_def)

text \<open>A settled session promise stays as it is, whatever happens.\<close>

lemma model_awaited_settled:
  "settled_session s sid r \<Longrightarrow> settled_session (model_awaited q s) sid r"
  by (cases "q = sid")
     (auto simp: settled_session_def model_awaited_def settle_session_def
        split: session_task.splits option.splits model_task.splits sum.splits)

lemma createContext_settles_settled:
  "settled_session s sid r \<Longrightarrow> settled_session (createContext_settles q x s) sid r"
  by (cases "q = sid")
     (auto simp: settled_session_def createContext_settles_def settle_session_def
        split: session_task.splits sum.splits)

lemma step_settled: "settled_session s sid r \<Longrightarrow> settled_session (step ev s) sid r"
proof (cases ev)
  case (Model_awaited q)
  assume "settled_session s sid r"
  then show ?thesis unfolding Model_awaited step.simps by (rule model_awaited_settled)
next
  case (CreateContext_settles q x)
  assume "settled_session s sid r"
  then show ?thesis unfolding CreateContext_settles step.simps by (rule createContext_settles_settled)
qed (auto simp: settled_session_def loadModel_sessions createNativeSession_sessions
       getLlama_settles_sessions llama_loadModel_settles_sessions nth_append)

lemma run_settled: "settled_session s sid r \<Longrightarrow> settled_session (run evs s) sid r"
proof (induction evs arbitrary: s)
  case Nil
  then show ?case by (simp add: run_def)
next
  case (Cons ev evs)
  from Cons.IH [OF step_settled [OF Cons.prems]] show ?case by (simp add: run_Cons)
qed

lemma session_state_Rejected: "session_state s sid = Rejected e \<longleftrightarrow> settled_session s sid (Inl e)"
  by (auto simp: session_state_def settled_session_def split: session_task.splits sum.splits if_splits)

lemma sendMessage_sessionPromise: "sessionPromise (snd (sendMessage s prompt input w)) = sessionPromise w"
  by (simp add: sendMessage_def split: promise.splits)

lemma constructed_eq:
  "new_LlamaChatSessionWrapper client_a (js ''be brief'') (Some example_history) process_start
     = (wrapper_a, constructed)"
  by (simp add: constructed_def new_LlamaChatSessionWrapper_def createNativeSession_def
        loadModel_def process_start_def wrapper_a_def split_beta Let_def)

lemma constructed_world:
  "constructed =
     \<lparr>modelCache = [cacheKey client_a \<mapsto> 0], modelPromises = [AwaitGetLlama client_a],
      getLlamaCalls = 1, loadModelCalls = [],
      sessionPromises = [AwaitModel (Some 0) client_a (js ''be brief'') (Some example_history)],
      createContextCalls = []\<rparr>"
  by (simp add: constructed_def new_LlamaChatSessionWrapper_def createNativeSession_def
        loadModel_def process_start_def split_beta Let_def)

lemma backend_fails_state:
  "session_state (run backend_fails constructed) 0 = Rejected load_failure"
  by (simp add: constructed_world backend_fails_def run_def getLlama_settles_def model_awaited_def
        settle_session_def session_state_def)

lemma session_ready_state:
  "session_state (run session_ready constructed) 0
     = Fulfilled (hydrateNativeHistory stale_session example_history)"
  by (simp add: constructed_world session_ready_def run_def getLlama_settles_def
        llama_loadModel_settles_def model_awaited_def createContext_settles_def
        settle_session_def session_state_def)
     (simp add: example_history_def)

text \<open>
  Claim C3. For every chat session and every input text, a \<^verbatim>\<open>sendMessage\<close> whose native
  prompt call succeeds appends exactly two messages to the session's history, in order: a
  \<^verbatim>\<open>user\<close> message whose text is the input, then a \<^verbatim>\<open>model\<close> message whose text is the
  returned response, and it returns the response text. If the native prompt call fails,
  the call fails with that failure and the history is exactly as before; more generally,
  a call that does not succeed leaves the wrapper untouched.
\<close>

theorem sendMessage_appends_turn:
  "(session_state s (sessionPromise w) = Fulfilled session \<longrightarrow>
      prompt session input (getPromptOptions (generationConfig (client w))) = Fulfilled responseText \<longrightarrow>
        sendMessage s prompt input w
          = (Fulfilled \<lparr>response_text = responseText\<rparr>,
             w\<lparr>history := history w @ [\<lparr>role = User, parts = [\<lparr>part_text = input\<rparr>]\<rparr>,
                                        \<lparr>role = Model, parts = [\<lparr>part_text = responseText\<rparr>]\<rparr>]\<rparr>) \<and>
        getHistory (snd (sendMessage s prompt input w))
          = getHistory w @ [\<lparr>role = User, parts = [\<lparr>part_text = input\<rparr>]\<rparr>,
                            \<lparr>role = Model, parts = [\<lparr>part_text = responseText\<rparr>]\<rparr>]) \<and>
   (session_state s (sessionPromise w) = Fulfilled session \<longrightarrow>
      prompt session input (getPromptOptions (generationConfig (client w))) = Rejected e \<longrightarrow>
        sendMessage s prompt input w = (Rejected e, w)) \<and>
   ((\<forall>response. fst (sendMessage s prompt input w) \<noteq> Fulfilled response) \<longrightarrow>
        snd (sendMessage s prompt input w) = w)"
  by (simp add: sendMessage_def getHistory_def split: promise.splits)

theorem sendMessage_appends_turn_witness:
  "session_state (run session_ready constructed) (sessionPromise wrapper_a)
     = Fulfilled (hydrateNativeHistory stale_session example_history) \<and>
   sendMessage (run session_ready constructed) prompt_hello (js ''hi'') wrapper_a
     = (Fulfilled \<lparr>response_text = js ''hello''\<rparr>,
        wrapper_a\<lparr>history := example_history @
          [\<lparr>role = User, parts = [\<lparr>part_text = js ''hi''\<rparr>]\<rparr>,
           \<lparr>role = Model, parts = [\<lparr>part_text = js ''hello''\<rparr>]\<rparr>]\<rparr>) \<and>
   sendMessage (run session_ready constructed) prompt_fails (js ''hi'') wrapper_a
     = (Rejected (Error (js ''context overflow'')), wrapper_a)"
proof -
  have r: "session_state (run session_ready constructed) (sessionPromise wrapper_a)
     = Fulfilled (hydrateNativeHistory stale_session example_history)"
    by (simp add: wrapper_a_def session_ready_state)
  have ok: "prompt_hello (hydrateNativeHistory stale_session example_history) (js ''hi'')
      (getPromptOptions (generationConfig (client wrapper_a))) = Fulfilled (js ''hello'')"
    by (simp add: prompt_hello_def)
  have bad: "prompt_fails (hydrateNativeHistory stale_session example_history) (js ''hi'')
      (getPromptOptions (generationConfig (client wrapper_a))) = Rejected (Error (js ''context overflow''))"
    by (simp add: prompt_fails_def)
  have h: "history wrapper_a = example_history" by (simp add: wrapper_a_def)
  from sendMessage_appends_turn [where s = "run session_ready constructed" and w = wrapper_a
      and session = "hydrateNativeHistory stale_session example_history" and prompt = prompt_hello
      and input = "js ''hi''" and responseText = "js ''hello''"] r ok
  have a: "sendMessage (run session_ready constructed) prompt_hello (js ''hi'') wrapper_a
     = (Fulfilled \<lparr>response_text = js ''hello''\<rparr>,
        wrapper_a\<lparr>history := history wrapper_a @
          [\<lparr>role = User, parts = [\<lparr>part_text = js ''hi''\<rparr>]\<rparr>,
           \<lparr>role = Model, parts = [\<lparr>part_text = js ''hello''\<rparr>]\<rparr>]\<rparr>)"
    by blast
  from sendMessage_appends_turn [where s = "run session_ready constructed" and w = wrapper_a
      and session = "hydrateNativeHistory stale_session example_history" and prompt = prompt_fails
      and input = "js ''hi''" and e = "Error (js ''context overflow'')"] r bad
  have b: "sendMessage (run session_ready constructed) prompt_fails (js ''hi'') wrapper_a
     = (Rejected (Error (js ''context overflow'')), wrapper_a)"
    by blast
  from r a b show ?thesis by (simp only: h simp_thms)
qed

text \<open>
  Claim C6. The constructor of a chat session starts exactly one native-session
  materialization (one call of \<^verbatim>\<open>createNativeSession\<close>, pending when the constructor
  returns) and keeps its promise; \<^verbatim>\<open>sendMessage\<close> never replaces that promise, so every
  call awaits the same operation. If the materialization fails, the failure is terminal:
  whatever happens afterwards, every \<^verbatim>\<open>sendMessage\<close> on the session fails with that same
  failure and leaves the session as it is; nothing starts the materialization again.
\<close>

theorem sessionPromise_memoized:
  assumes "new_LlamaChatSessionWrapper c systemInstruction initialHistory s = (w, s1)"
  shows "sessionPromises s1
           = sessionPromises s @ [AwaitModel (fst (loadModel c s)) c systemInstruction (Some (history w))] \<and>
         sessionPromise w = length (sessionPromises s) \<and>
         session_state s1 (sessionPromise w) = Pending \<and>
         (\<forall>s' prompt input. sessionPromise (snd (sendMessage s' prompt input w)) = sessionPromise w) \<and>
         (\<forall>evs e. session_state (run evs s1) (sessionPromise w) = Rejected e \<longrightarrow>
            (\<forall>evs' prompt input w'. sessionPromise w' = sessionPromise w \<longrightarrow>
               sendMessage (run evs' (run evs s1)) prompt input w' = (Rejected e, w')))"
proof -
  let ?h = "case initialHistory of Some a \<Rightarrow> a | None \<Rightarrow> []"
  from assms have w: "w = \<lparr>history = ?h,
      sessionPromise = fst (createNativeSession c systemInstruction (Some ?h) s), client = c\<rparr>"
    and s1: "s1 = snd (createNativeSession c systemInstruction (Some ?h) s)"
    by (simp_all add: new_LlamaChatSessionWrapper_def split_beta Let_def)
  have p: "fst (createNativeSession c systemInstruction (Some ?h) s) = length (sessionPromises s)"
    by (simp add: createNativeSession_def split_beta Let_def loadModel_sessions)
  have a: "sessionPromises s1
           = sessionPromises s @ [AwaitModel (fst (loadModel c s)) c systemInstruction (Some (history w))]"
    by (simp add: s1 w createNativeSession_sessions)
  have b: "sessionPromise w = length (sessionPromises s)" by (simp add: w p)
  have c: "session_state s1 (sessionPromise w) = Pending" by (simp add: session_state_def a b)
  have d: "sendMessage (run evs' (run evs s1)) prompt input w' = (Rejected e, w')"
    if "session_state (run evs s1) (sessionPromise w) = Rejected e" and "sessionPromise w' = sessionPromise w"
    for evs evs' e prompt input w'
  proof -
    from that(1) have "settled_session (run evs s1) (sessionPromise w) (Inl e)"
      by (simp add: session_state_Rejected)
    then have "settled_session (run evs' (run evs s1)) (sessionPromise w) (Inl e)" by (rule run_settled)
    then have "session_state (run evs' (run evs s1)) (sessionPromise w') = Rejected e"
      by (simp add: session_state_Rejected that(2))
    then show ?thesis by (simp add: sendMessage_def)
  qed
  from a b c d show ?thesis by (simp add: sendMessage_sessionPromise)
qed

theorem sessionPromise_memoized_witness:
  "new_LlamaChatSessionWrapper client_a (js ''be brief'') (Some example_history) process_start
     = (wrapper_a, constructed) \<and>
   length (sessionPromises constructed) = 1 \<and>
   session_state constructed (sessionPromise wrapper_a) = Pending \<and>
   session_state (run backend_fails constructed) (sessionPromise wrapper_a) = Rejected load_failure \<and>
   sendMessage (run [Call_loadModel client_b] (run backend_fails constructed)) prompt_hello (js ''hi'') wrapper_a
     = (Rejected load_failure, wrapper_a)"
proof -
  note th = sessionPromise_memoized [OF constructed_eq]
  have p: "sessionPromise wrapper_a = 0" by (simp add: wrapper_a_def)
  from th have "length (sessionPromises constructed) = 1" by (simp add: process_start_def)
  moreover from th have "session_state constructed (sessionPromise wrapper_a) = Pending" by blast
  moreover have f: "session_state (run backend_fails constructed) (sessionPromise wrapper_a) = Rejected load_failure"
    by (simp add: p backend_fails_state)
  moreover from th f
  have "sendMessage (run [Call_loadModel client_b] (run backend_fails constructed)) prompt_hello (js ''hi'') wrapper_a
     = (Rejected load_failure, wrapper_a)"
    by blast
  ultimately show ?thesis using constructed_eq by (intro conjI)
qed

end
